theory Spec2Isabelle
  imports Complex_Main "HOL-Library.Sublist"
begin

section \<open>Python values and exceptions\<close>

text \<open>
  The exception classes the sources raise or catch. \<open>Exception\<close> stands for any other
  subclass of Python's \<open>Exception\<close>; the string is \<open>str(e)\<close>.
\<close>

datatype exn =
    ValueError string
  | HttpError string
  | OverflowError string
  | AttributeError string
  | TypeError string
  | Exception string

fun exn_str :: "exn \<Rightarrow> string" where
  "exn_str (ValueError m) = m"
| "exn_str (HttpError m) = m"
| "exn_str (OverflowError m) = m"
| "exn_str (AttributeError m) = m"
| "exn_str (TypeError m) = m"
| "exn_str (Exception m) = m"

text \<open>\<open>isinstance(e, ValueError)\<close>: what \<open>except ValueError\<close> catches.\<close>

fun is_ValueError :: "exn \<Rightarrow> bool" where
  "is_ValueError (ValueError m) = True"
| "is_ValueError e = False"

text \<open>Truthiness of an optional string (\<open>None\<close> and \<open>""\<close> are falsy).\<close>

fun truthy :: "string option \<Rightarrow> bool" where
  "truthy None = False"
| "truthy (Some s) = (s \<noteq> [])"

section \<open>Credentials and the Google client library\<close>

text \<open>
  \<open>google.oauth2.credentials.Credentials\<close>, with the attributes the sources read.
  \<open>expired\<close> is a property the library computes from the expiry and the clock.
\<close>

record credentials =
  token :: "string option"
  refresh_token :: "string option"
  token_uri :: string
  client_id :: string
  client_secret :: string
  scopes :: "string list"
  expired :: bool

text \<open>
  The JSON object \<open>handle_oauth_callback\<close> serialises (\<open>token_data\<close>); the stored token
  is represented by the object it encodes.
\<close>

record token_data =
  td_token :: "string option"
  td_refresh_token :: "string option"
  td_token_uri :: string
  td_client_id :: string
  td_client_secret :: string
  td_scopes :: "string list"

record event_time =
  dateTime :: string
  timeZone :: string

text \<open>The \<open>event\<close> body of \<open>CalendarService.create_event\<close>.\<close>

record event_payload =
  p_summary :: string
  p_location :: string
  p_description :: string
  p_start :: event_time
  p_end :: event_time

text \<open>The fields of the created event that \<open>CalendarService.create_event\<close> reads.\<close>

record created_event =
  c_id :: string
  c_summary :: "string option"
  c_start_dateTime :: "string option"
  c_htmlLink :: "string option"

text \<open>The dictionary \<open>CalendarService.create_event\<close> returns.\<close>

record event_result =
  r_id :: string
  r_summary :: "string option"
  r_start :: "string option"
  r_link :: "string option"

text \<open>
  The external collaborators of the calendar service, as parameters:
  \<^item> \<open>fetch_token\<close>: \<open>flow.fetch_token(code=code)\<close> followed by \<open>flow.credentials\<close>;
  \<^item> \<open>load_info\<close>: \<open>Credentials.from_authorized_user_info(json.loads(token))\<close>;
  \<^item> \<open>refresh\<close>: \<open>credentials.refresh(Request())\<close>, returning the mutated credentials;
  \<^item> \<open>build\<close>: \<open>googleapiclient.discovery.build\<close> (\<open>Some e\<close> when it raises);
  \<^item> \<open>events_insert\<close>: \<open>service.events().insert(calendarId='primary', body=event).execute()\<close>.
\<close>

record google_api =
  fetch_token :: "string \<Rightarrow> exn + credentials"
  load_info :: "token_data \<Rightarrow> exn + credentials"
  refresh :: "credentials \<Rightarrow> exn + credentials"
  build :: "credentials \<Rightarrow> exn option"
  events_insert :: "credentials \<Rightarrow> event_payload \<Rightarrow> exn + created_event"

text \<open>The calls that leave the process, in the order they are issued.\<close>

datatype remote_call =
    FetchToken string
  | RefreshExchange credentials
  | InsertEvent event_payload

text \<open>
  The mutable state: \<open>CalendarService._oauth_states\<close>, the token storage keyed by
  (user, integration), and the log of remote calls.
\<close>

record world =
  oauth_states :: "string \<rightharpoonup> string"
  token_store :: "string \<times> string \<rightharpoonup> token_data"
  calls :: "remote_call list"

section \<open>CalendarService: the OAuth flow\<close>

definition state_not_found_msg :: string where
  "state_not_found_msg = ''OAuth state not found. Please restart the authorization flow.''"

definition csrf_msg :: string where
  "csrf_msg = ''Invalid OAuth state. Possible CSRF attack.''"

text \<open>
  \<open>get_authorization_url\<close>: the pair \<open>(authorization_url, state)\<close> is what
  \<open>flow.authorization_url(...)\<close> returned; the state is stored under the user.
\<close>

definition get_authorization_url :: "string \<times> string \<Rightarrow> string \<Rightarrow> world \<Rightarrow> string \<times> world" where
  "get_authorization_url issued user_id w =
     (case issued of (authorization_url, state) \<Rightarrow>
        (authorization_url, w\<lparr>oauth_states := (oauth_states w)(user_id \<mapsto> state)\<rparr>))"

definition token_data_of :: "credentials \<Rightarrow> token_data" where
  "token_data_of c =
     \<lparr>td_token = token c, td_refresh_token = refresh_token c, td_token_uri = token_uri c,
      td_client_id = client_id c, td_client_secret = client_secret c, td_scopes = scopes c\<rparr>"

definition handle_oauth_callback ::
  "google_api \<Rightarrow> string \<Rightarrow> string \<Rightarrow> string \<Rightarrow> world \<Rightarrow> (exn + token_data) \<times> world" where
  "handle_oauth_callback g code state user_id w =
     (case oauth_states w user_id of
        None \<Rightarrow> (Inl (ValueError state_not_found_msg), w)
      | Some stored \<Rightarrow>
          if stored \<noteq> state then
            (Inl (ValueError csrf_msg), w\<lparr>oauth_states := (oauth_states w)(user_id := None)\<rparr>)
          else
            let w1 = w\<lparr>oauth_states := (oauth_states w)(user_id := None)\<rparr>;
                w2 = w1\<lparr>calls := calls w1 @ [FetchToken code]\<rparr>
            in (case fetch_token g code of
                  Inl e \<Rightarrow> (Inl e, w2)
                | Inr c \<Rightarrow> (Inr (token_data_of c), w2)))"

definition credentials_expired_msg :: string where
  "credentials_expired_msg = ''Calendar credentials expired and could not be refreshed.''"

definition get_credentials_from_token ::
  "google_api \<Rightarrow> token_data \<Rightarrow> world \<Rightarrow> (exn + credentials) \<times> world" where
  "get_credentials_from_token g tok w =
     (case load_info g tok of
        Inl e \<Rightarrow> (Inl e, w)
      | Inr c \<Rightarrow>
          if expired c \<and> truthy (refresh_token c) then
            let w1 = w\<lparr>calls := calls w @ [RefreshExchange c]\<rparr>
            in (case refresh g c of
                  Inl e \<Rightarrow> (Inl (ValueError credentials_expired_msg), w1)
                | Inr c' \<Rightarrow> (Inr c', w1))
          else (Inr c, w))"

definition validate_credentials :: "credentials \<Rightarrow> bool" where
  "validate_credentials c =
     (if \<not> truthy (token c) then False
      else if expired c \<and> \<not> truthy (refresh_token c) then False
      else True)"

section \<open>Dates and times (Python's \<open>datetime\<close>)\<close>

text \<open>
  \<open>datetime.tzinfo\<close>: what the sources observe of it is \<open>str(tzinfo)\<close>, and
  \<open>isoformat\<close> prints its UTC offset (in seconds).
\<close>

record tzinfo =
  tz_str :: string
  utcoffset :: int

record datetime =
  year :: int
  month :: int
  day :: int
  hour :: int
  minute :: int
  second :: int
  microsecond :: int
  dt_tzinfo :: "tzinfo option"

definition is_leap :: "int \<Rightarrow> bool" where
  "is_leap y = (y mod 4 = 0 \<and> (y mod 100 \<noteq> 0 \<or> y mod 400 = 0))"

definition days_before_year :: "int \<Rightarrow> int" where
  "days_before_year y = (let z = y - 1 in z * 365 + z div 4 - z div 100 + z div 400)"

definition DAYS_IN_MONTH :: "int list" where
  "DAYS_IN_MONTH = [31, 28, 31, 30, 31, 30, 31, 31, 30, 31, 30, 31]"

definition DAYS_BEFORE_MONTH :: "int list" where
  "DAYS_BEFORE_MONTH = [0, 31, 59, 90, 120, 151, 181, 212, 243, 273, 304, 334]"

definition days_in_month :: "int \<Rightarrow> int \<Rightarrow> int" where
  "days_in_month y m = (if m = 2 \<and> is_leap y then 29 else DAYS_IN_MONTH ! nat (m - 1))"

definition days_before_month :: "int \<Rightarrow> int \<Rightarrow> int" where
  "days_before_month y m =
     DAYS_BEFORE_MONTH ! nat (m - 1) + (if m > 2 \<and> is_leap y then 1 else 0)"

definition ymd2ord :: "int \<Rightarrow> int \<Rightarrow> int \<Rightarrow> int" where
  "ymd2ord y m d = days_before_year y + days_before_month y m + d"

text \<open>\<open>_ord2ymd\<close>: the date of a proleptic Gregorian ordinal (day 1 is 0001-01-01).\<close>

definition ord2ymd :: "int \<Rightarrow> int \<times> int \<times> int" where
  "ord2ymd n0 =
     (let n = n0 - 1;
          n400 = n div 146097; n = n mod 146097;
          n100 = n div 36524; n = n mod 36524;
          n4 = n div 1461; n = n mod 1461;
          n1 = n div 365; n = n mod 365;
          y = n400 * 400 + 1 + n100 * 100 + n4 * 4 + n1
      in if n1 = 4 \<or> n100 = 4 then (y - 1, 12, 31)
         else
           let leapyear = (n1 = 3 \<and> (n4 \<noteq> 24 \<or> n100 = 3));
               m = (n + 50) div 32;
               preceding = DAYS_BEFORE_MONTH ! nat (m - 1) + (if m > 2 \<and> leapyear then 1 else 0)
           in if preceding > n then
                (y, m - 1,
                 n - (preceding - (DAYS_IN_MONTH ! nat (m - 2) + (if m - 1 = 2 \<and> leapyear then 1 else 0))) + 1)
              else (y, m, n - preceding + 1))"

definition toordinal :: "datetime \<Rightarrow> int" where
  "toordinal d = ymd2ord (year d) (month d) (day d)"

definition MAXORDINAL :: int where
  "MAXORDINAL = 3652059"

text \<open>
  \<open>start_time + timedelta(minutes=n)\<close>: the wall-clock fields move by \<open>n\<close> minutes, the
  microsecond and the tzinfo stay; a result outside years 1..9999 raises OverflowError.
\<close>

definition add_minutes :: "datetime \<Rightarrow> int \<Rightarrow> exn + datetime" where
  "add_minutes d n =
     (let total = ((toordinal d * 24 + hour d) * 60 + minute d) * 60 + second d + n * 60;
          days = total div 86400;
          rem = total mod 86400
      in if 0 < days \<and> days \<le> MAXORDINAL then
           (case ord2ymd days of (y, m, dd) \<Rightarrow>
              Inr (d\<lparr>year := y, month := m, day := dd,
                     hour := rem div 3600, minute := (rem mod 3600) div 60, second := rem mod 60\<rparr>))
         else Inl (OverflowError ''date value out of range''))"

fun zpad :: "nat \<Rightarrow> nat \<Rightarrow> string" where
  "zpad 0 n = []"
| "zpad (Suc w) n = zpad w (n div 10) @ [''0123456789'' ! (n mod 10)]"

definition zpad2 :: "int \<Rightarrow> string" where
  "zpad2 n = zpad (Suc (Suc 0)) (nat n)"

definition zpad4 :: "int \<Rightarrow> string" where
  "zpad4 n = zpad (Suc (Suc (Suc (Suc 0)))) (nat n)"

definition zpad6 :: "int \<Rightarrow> string" where
  "zpad6 n = zpad (Suc (Suc (Suc (Suc (Suc (Suc 0)))))) (nat n)"

definition format_offset :: "int \<Rightarrow> string" where
  "format_offset off =
     (let a = \<bar>off\<bar>; ss = a mod 60
      in (if off < 0 then ''-'' else ''+'') @ zpad2 (a div 3600) @ '':'' @ zpad2 ((a mod 3600) div 60)
         @ (if ss \<noteq> 0 then '':'' @ zpad2 ss else []))"

definition isoformat :: "datetime \<Rightarrow> string" where
  "isoformat d =
     zpad4 (year d) @ ''-'' @ zpad2 (month d) @ ''-'' @ zpad2 (day d) @ ''T''
     @ zpad2 (hour d) @ '':'' @ zpad2 (minute d) @ '':'' @ zpad2 (second d)
     @ (if microsecond d \<noteq> 0 then ''.'' @ zpad6 (microsecond d) else [])
     @ (case dt_tzinfo d of None \<Rightarrow> [] | Some z \<Rightarrow> format_offset (utcoffset z))"

definition weekday :: "datetime \<Rightarrow> int" where
  "weekday d = (toordinal d + 6) mod 7"

definition day_name :: "int \<Rightarrow> string" where
  "day_name k = [''Monday'', ''Tuesday'', ''Wednesday'', ''Thursday'', ''Friday'', ''Saturday'',
                 ''Sunday''] ! nat k"

definition month_name :: "int \<Rightarrow> string" where
  "month_name m = [''January'', ''February'', ''March'', ''April'', ''May'', ''June'', ''July'',
                   ''August'', ''September'', ''October'', ''November'', ''December''] ! nat (m - 1)"

text \<open>\<open>start_time.strftime("%A, %B %d at %I:%M %p")\<close> in the C locale.\<close>

definition strftime_event :: "datetime \<Rightarrow> string" where
  "strftime_event d =
     day_name (weekday d) @ '', '' @ month_name (month d) @ '' '' @ zpad2 (day d) @ '' at ''
     @ zpad2 (if hour d mod 12 = 0 then 12 else hour d mod 12) @ '':'' @ zpad2 (minute d) @ '' ''
     @ (if hour d < 12 then ''AM'' else ''PM'')"

section \<open>CalendarService.create_event\<close>

text \<open>
  The result is the returned dictionary (\<open>None\<close> after either \<open>except\<close> branch); the
  insert call is logged when it is issued, whatever the remote answers.
\<close>

definition service_create_event ::
  "google_api \<Rightarrow> credentials \<Rightarrow> string \<Rightarrow> datetime \<Rightarrow> datetime \<Rightarrow> string \<Rightarrow> string \<Rightarrow> string
     \<Rightarrow> world \<Rightarrow> event_result option \<times> world" where
  "service_create_event g creds summary start_time end_time description location timezone w =
     (case build g creds of
        Some e \<Rightarrow> (None, w)
      | None \<Rightarrow>
          let start_dt_str = isoformat start_time;
              end_dt_str = isoformat end_time;
              tz = (case dt_tzinfo start_time of None \<Rightarrow> timezone | Some z \<Rightarrow> tz_str z);
              event = \<lparr>p_summary = summary, p_location = location, p_description = description,
                       p_start = \<lparr>dateTime = start_dt_str, timeZone = tz\<rparr>,
                       p_end = \<lparr>dateTime = end_dt_str, timeZone = tz\<rparr>\<rparr>;
              w1 = w\<lparr>calls := calls w @ [InsertEvent event]\<rparr>
          in (case events_insert g creds event of
                Inl e \<Rightarrow> (None, w1)
              | Inr created \<Rightarrow>
                  (Some \<lparr>r_id = c_id created, r_summary = c_summary created,
                          r_start = c_start_dateTime created, r_link = c_htmlLink created\<rparr>, w1)))"

section \<open>CalendarTool\<close>

text \<open>
  Modelled from the spec: \<open>app.utils.token_storage.TokenStorage\<close>, a key-value store of
  stored credentials per (user identity, integration name); \<open>has_token\<close> and \<open>get_token\<close>
  read it.
\<close>

definition has_token :: "world \<Rightarrow> string \<Rightarrow> string \<Rightarrow> bool" where
  "has_token w user_id integration = (token_store w (user_id, integration) \<noteq> None)"

definition get_token :: "world \<Rightarrow> string \<Rightarrow> string \<Rightarrow> token_data option" where
  "get_token w user_id integration = token_store w (user_id, integration)"

definition is_connected :: "world \<Rightarrow> string \<Rightarrow> bool" where
  "is_connected w user_id = has_token w user_id ''calendar''"

record tool_result =
  success :: bool
  message :: string
  event :: "event_result option"

definition not_connected_msg :: string where
  "not_connected_msg = ''Calendar is not connected. Please connect your Google Calendar first.''"

definition create_failed_msg :: string where
  "create_failed_msg = ''Failed to create the event. Please check the logs for details.''"

definition created_msg :: "string \<Rightarrow> string \<Rightarrow> string" where
  "created_msg summary time_str =
     ''I'' @ [CHR 0x27] @ ''ve created an event called '' @ [CHR 0x27] @ summary @ [CHR 0x27]
     @ '' for '' @ time_str @ ''. You can view it in your Google Calendar.''"

definition tool_error_msg :: "exn \<Rightarrow> string" where
  "tool_error_msg e = ''Sorry, I couldn'' @ [CHR 0x27] @ ''t create the event: '' @ exn_str e"

definition tool_failure :: "string \<Rightarrow> tool_result" where
  "tool_failure m = \<lparr>success = False, message = m, event = None\<rparr>"

text \<open>
  \<open>CalendarTool.create_event\<close>. Every exception of the body ends in the
  \<open>except Exception\<close> branch, whose message carries \<open>str(e)\<close>.
\<close>

definition tool_create_event ::
  "google_api \<Rightarrow> string \<Rightarrow> string \<Rightarrow> datetime \<Rightarrow> int \<Rightarrow> string \<Rightarrow> string \<Rightarrow> world
     \<Rightarrow> tool_result \<times> world" where
  "tool_create_event g user_id summary start_time duration_minutes description timezone w =
     (if \<not> is_connected w user_id then (tool_failure not_connected_msg, w)
      else
        case get_token w user_id ''calendar'' of
          None \<Rightarrow>
            (tool_failure (tool_error_msg (TypeError
               ''the JSON object must be str, bytes or bytearray, not NoneType'')), w)
        | Some token_json \<Rightarrow>
            (case get_credentials_from_token g token_json w of
               (Inl e, w1) \<Rightarrow> (tool_failure (tool_error_msg e), w1)
             | (Inr creds, w1) \<Rightarrow>
                 (case add_minutes start_time duration_minutes of
                    Inl e \<Rightarrow> (tool_failure (tool_error_msg e), w1)
                  | Inr end_time \<Rightarrow>
                      (case service_create_event g creds summary start_time end_time
                              description [] timezone w1 of
                         (None, w2) \<Rightarrow> (tool_failure create_failed_msg, w2)
                       | (Some ev, w2) \<Rightarrow>
                           (\<lparr>success = True,
                             message = created_msg summary (strftime_event start_time),
                             event = Some ev\<rparr>, w2)))))"

section \<open>The voice agent's tool: create_calendar_event\<close>

definition parse_error_msg :: "string \<Rightarrow> string" where
  "parse_error_msg m =
     ''Sorry, I couldn'' @ [CHR 0x27]
     @ ''t parse the time format. Please provide a valid datetime: '' @ m"

definition generic_error_msg :: "string \<Rightarrow> string" where
  "generic_error_msg m = ''Sorry, I encountered an error creating the event: '' @ m"

text \<open>
  The tool closure of \<open>entrypoint\<close>. Parameters from outside the repository:
  \<open>fromisoformat\<close> is \<open>datetime.fromisoformat\<close> (\<open>Inl m\<close> when it raises
  \<open>ValueError(m)\<close>), \<open>get_settings\<close> the outcome of \<open>app.config.get_settings()\<close> as far as
  it is read here (\<open>settings.user_timezone\<close>), \<open>user_timezone\<close> the participant
  attribute. \<open>duration_minutes\<close> is \<open>None\<close> when the caller omits it.
\<close>

definition create_calendar_event ::
  "(string \<Rightarrow> string + datetime) \<Rightarrow> exn + string \<Rightarrow> google_api \<Rightarrow> string \<Rightarrow> string option
     \<Rightarrow> string \<Rightarrow> string \<Rightarrow> int option \<Rightarrow> world \<Rightarrow> string \<times> world" where
  "create_calendar_event fromisoformat get_settings g user_id user_timezone
       summary start_time_str duration_minutes w =
     (case fromisoformat start_time_str of
        Inl m \<Rightarrow> (parse_error_msg m, w)
      | Inr start_time \<Rightarrow>
          (case get_settings of
             Inl e \<Rightarrow>
               (if is_ValueError e then (parse_error_msg (exn_str e), w)
                else (generic_error_msg (exn_str e), w))
           | Inr settings_user_timezone \<Rightarrow>
               let timezone_to_use =
                     (if truthy user_timezone then the user_timezone else settings_user_timezone);
                   duration = (case duration_minutes of None \<Rightarrow> 60 | Some n \<Rightarrow> n)
               in (case tool_create_event g user_id summary start_time duration [] timezone_to_use w of
                     (result, w1) \<Rightarrow> (message result, w1))))"

section \<open>Strings and dictionaries of the memory client\<close>

text \<open>A value of a result dictionary: \<open>None\<close>, a string, or a number.\<close>

datatype pyval = PNone | PStr string | PInt int


type_synonym mem_result = "string \<rightharpoonup> pyval"









section \<open>The memory client and the conversation engine\<close>

record search_request =
  query :: string
  filter_user_id :: string
  top_k :: nat
  threshold :: rat

record chat_message =
  role :: string
  content :: string

text \<open>
  \<open>mem0_client\<close>, from outside the repository: \<open>search\<close> raises (\<open>Inl\<close>) or returns the
  value of \<open>search_results.get('results')\<close> (\<open>None\<close> for a falsy response or one without
  that key); \<open>add\<close> raises (\<open>Some e\<close>) or stores the messages for the user.
\<close>

record mem0 =
  search :: "search_request \<Rightarrow> exn + mem_result list option"
  add :: "chat_message list \<Rightarrow> string \<Rightarrow> exn option"



section \<open>VoiceAssistant.on_enter\<close>







section \<open>VoiceAssistant.on_user_turn_completed\<close>










section \<open>A parser for the examples\<close>

text \<open>
  The layout \<open>isoformat()\<close> prints for a whole number of seconds,
  \<open>YYYY-MM-DDTHH:MM:SS\<close>, optionally followed by \<open>+HH:MM\<close> or \<open>-HH:MM\<close>; every other
  string is refused. On these strings \<open>datetime.fromisoformat\<close> returns the same fields,
  with \<open>timezone.utc\<close> for a zero offset and a fixed-offset \<open>timezone\<close> otherwise. The
  examples run on it; the theorems are stated for any parser.
\<close>

definition digit_val :: "char \<Rightarrow> int option" where
  "digit_val c = map_of (zip ''0123456789'' [0, 1, 2, 3, 4, 5, 6, 7, 8, 9]) c"

fun parse_digits :: "int \<Rightarrow> string \<Rightarrow> int option" where
  "parse_digits acc [] = Some acc"
| "parse_digits acc (c # cs) =
     (case digit_val c of None \<Rightarrow> None | Some d \<Rightarrow> parse_digits (acc * 10 + d) cs)"

definition invalid_isoformat :: "string \<Rightarrow> string" where
  "invalid_isoformat s = ''Invalid isoformat string: '' @ [CHR 0x27] @ s @ [CHR 0x27]"

definition fixed_offset :: "int \<Rightarrow> tzinfo" where
  "fixed_offset off =
     \<lparr>tz_str = (if off = 0 then ''UTC'' else ''UTC'' @ format_offset off), utcoffset = off\<rparr>"

definition parse_offset :: "string \<Rightarrow> tzinfo option option" where
  "parse_offset s =
     (if s = [] then Some None
      else if length s = 6 \<and> (s ! 0 = CHR ''+'' \<or> s ! 0 = CHR ''-'') \<and> s ! 3 = CHR '':'' then
        (case (parse_digits 0 (take 2 (drop 1 s)), parse_digits 0 (drop 4 s)) of
           (Some hh, Some mm) \<Rightarrow>
             if hh < 24 \<and> mm < 60 then
               Some (Some (fixed_offset ((if s ! 0 = CHR ''-'' then - 1 else 1) * (hh * 3600 + mm * 60))))
             else None
         | _ \<Rightarrow> None)
      else None)"

definition fromisoformat_seconds :: "string \<Rightarrow> string + datetime" where
  "fromisoformat_seconds s =
     (if length s \<ge> 19 \<and> s ! 4 = CHR ''-'' \<and> s ! 7 = CHR ''-'' \<and> s ! 10 = CHR ''T''
         \<and> s ! 13 = CHR '':'' \<and> s ! 16 = CHR '':'' then
        (case (parse_digits 0 (take 4 s), parse_digits 0 (take 2 (drop 5 s)),
               parse_digits 0 (take 2 (drop 8 s)), parse_digits 0 (take 2 (drop 11 s)),
               parse_digits 0 (take 2 (drop 14 s)), parse_digits 0 (take 2 (drop 17 s)),
               parse_offset (drop 19 s)) of
           (Some y, Some m, Some d, Some hh, Some mi, Some ss, Some tz) \<Rightarrow>
             if 1 \<le> y \<and> 1 \<le> m \<and> m \<le> 12 \<and> 1 \<le> d \<and> d \<le> days_in_month y m
                \<and> hh < 24 \<and> mi < 60 \<and> ss < 60 then
               Inr \<lparr>year = y, month = m, day = d, hour = hh, minute = mi, second = ss,
                    microsecond = 0, dt_tzinfo = tz\<rparr>
             else Inl (invalid_isoformat s)
         | _ \<Rightarrow> Inl (invalid_isoformat s))
      else Inl (invalid_isoformat s))"

section \<open>Example inputs\<close>

definition demo_credentials :: credentials where
  "demo_credentials =
     \<lparr>token = Some ''access-1'', refresh_token = Some ''refresh-1'',
      token_uri = ''https://oauth2.googleapis.com/token'', client_id = ''client'',
      client_secret = ''secret'',
      scopes = [''https://www.googleapis.com/auth/calendar.readonly'',
                ''https://www.googleapis.com/auth/calendar.events''],
      expired = False\<rparr>"

text \<open>
  A library whose loaded credentials are expired or not as the flag says, whose refresh
  exchange succeeds or not as the second flag says (issuing \<open>access-2\<close>), and whose
  calendar accepts every event.
\<close>

definition demo_google :: "bool \<Rightarrow> bool \<Rightarrow> google_api" where
  "demo_google is_expired refresh_ok =
     \<lparr>fetch_token = (\<lambda>code. Inr demo_credentials),
      load_info = (\<lambda>td. Inr \<lparr>token = td_token td, refresh_token = td_refresh_token td,
                              token_uri = td_token_uri td, client_id = td_client_id td,
                              client_secret = td_client_secret td, scopes = td_scopes td,
                              expired = is_expired\<rparr>),
      refresh = (\<lambda>c. if refresh_ok then Inr (c\<lparr>token := Some ''access-2'', expired := False\<rparr>)
                      else Inl (Exception ''invalid_grant: Token has been expired or revoked.'')),
      build = (\<lambda>c. None),
      events_insert = (\<lambda>c ev. Inr \<lparr>c_id = ''evt-1'', c_summary = Some (p_summary ev),
                                     c_start_dateTime = Some (dateTime (p_start ev)),
                                     c_htmlLink = Some ''https://www.google.com/calendar/event?eid=evt-1''\<rparr>)\<rparr>"

definition demo_world :: world where
  "demo_world =
     \<lparr>oauth_states = [''u1'' \<mapsto> ''state-A''],
      token_store = [(''u1'', ''calendar'') \<mapsto> token_data_of demo_credentials],
      calls = []\<rparr>"

text \<open>The same world with a stored credential that carries no refresh token.\<close>

definition demo_world_no_refresh :: world where
  "demo_world_no_refresh =
     demo_world\<lparr>token_store :=
       [(''u1'', ''calendar'') \<mapsto> (token_data_of demo_credentials)\<lparr>td_refresh_token := None\<rparr>]\<rparr>"

definition demo_start :: datetime where
  "demo_start =
     \<lparr>year = 2025, month = 11, day = 20, hour = 9, minute = 0, second = 0, microsecond = 0,
      dt_tzinfo = None\<rparr>"






section \<open>The OAuth flow: pending states\<close>

text \<open>
  C1. When a user has a pending state and the callback carries a different one, the
  callback fails with the CSRF error, the pending state is deleted, no token exchange is
  issued, and a retry with the same wrong state fails with the state-not-found error.
\<close>

theorem callback_mismatch_fails_and_discards:
  assumes "oauth_states w user_id = Some issued" and "state \<noteq> issued"
  shows "fst (handle_oauth_callback g code state user_id w) = Inl (ValueError csrf_msg)
       \<and> oauth_states (snd (handle_oauth_callback g code state user_id w)) user_id = None
       \<and> calls (snd (handle_oauth_callback g code state user_id w)) = calls w
       \<and> fst (handle_oauth_callback g code' state user_id
               (snd (handle_oauth_callback g code state user_id w)))
           = Inl (ValueError state_not_found_msg)"
  using assms by (auto simp: handle_oauth_callback_def)

theorem callback_mismatch_witness:
  "oauth_states demo_world ''u1'' = Some ''state-A'' \<and> ''state-B'' \<noteq> ''state-A''
   \<and> fst (handle_oauth_callback (demo_google False True) ''code'' ''state-B'' ''u1'' demo_world)
       = Inl (ValueError csrf_msg)
   \<and> oauth_states (snd (handle_oauth_callback (demo_google False True) ''code'' ''state-B'' ''u1''
        demo_world)) ''u1'' = None
   \<and> fst (handle_oauth_callback (demo_google False True) ''code'' ''state-B'' ''u1''
        (snd (handle_oauth_callback (demo_google False True) ''code'' ''state-B'' ''u1'' demo_world)))
       = Inl (ValueError state_not_found_msg)"
proof -
  have pending: "oauth_states demo_world ''u1'' = Some ''state-A''"
    by (simp add: demo_world_def)
  have wrong: "''state-B'' \<noteq> ''state-A''"
    by simp
  from callback_mismatch_fails_and_discards [OF pending wrong, of "demo_google False True" "''code''" "''code''"]
  show ?thesis using pending wrong by simp
qed

text \<open>
  C2. Two calls of \<open>get_authorization_url\<close> for the same user leave exactly the second
  state pending (the mapping holds one state per user, and this service is the calendar
  integration's), and the callback with the first state then fails with the CSRF error.
  The two states are those the OAuth library generated; they are taken to differ.
\<close>

theorem second_authorization_invalidates_first:
  assumes "s1 \<noteq> s2"
  shows "oauth_states (snd (get_authorization_url (url1, s1) user_id w)) user_id = Some s1
       \<and> oauth_states (snd (get_authorization_url (url2, s2) user_id
            (snd (get_authorization_url (url1, s1) user_id w)))) user_id = Some s2
       \<and> fst (handle_oauth_callback g code s1 user_id
            (snd (get_authorization_url (url2, s2) user_id
               (snd (get_authorization_url (url1, s1) user_id w)))))
           = Inl (ValueError csrf_msg)"
  using assms by (simp add: get_authorization_url_def handle_oauth_callback_def)

theorem second_authorization_witness:
  "''state-A'' \<noteq> ''state-B''
   \<and> oauth_states (snd (get_authorization_url (''https://accounts.google.com/o/oauth2/auth?state=state-B'', ''state-B'') ''u1''
        (snd (get_authorization_url (''https://accounts.google.com/o/oauth2/auth?state=state-A'', ''state-A'') ''u1'' demo_world)))) ''u1''
       = Some ''state-B''
   \<and> fst (handle_oauth_callback (demo_google False True) ''code'' ''state-A'' ''u1''
        (snd (get_authorization_url (''https://accounts.google.com/o/oauth2/auth?state=state-B'', ''state-B'') ''u1''
           (snd (get_authorization_url (''https://accounts.google.com/o/oauth2/auth?state=state-A'', ''state-A'') ''u1'' demo_world)))))
       = Inl (ValueError csrf_msg)"
proof -
  have differ: "''state-A'' \<noteq> ''state-B''"
    by simp
  from second_authorization_invalidates_first [OF differ]
  show ?thesis using differ by blast
qed

section \<open>Loading stored credentials\<close>

lemma demo_token: "get_token demo_world ''u1'' ''calendar'' = Some (token_data_of demo_credentials)"
  by (simp add: get_token_def demo_world_def)

lemma demo_load:
  "load_info (demo_google ex ok) (token_data_of demo_credentials) = Inr (demo_credentials\<lparr>expired := ex\<rparr>)"
  by (simp add: demo_google_def token_data_of_def demo_credentials_def)

lemma demo_load_no_refresh:
  "load_info (demo_google True True) ((token_data_of demo_credentials)\<lparr>td_refresh_token := None\<rparr>)
     = Inr (demo_credentials\<lparr>refresh_token := None, expired := True\<rparr>)"
  by (simp add: demo_google_def token_data_of_def demo_credentials_def)


text \<open>
  C3 as stated fails: an expired credential without a refresh token is returned by
  \<open>get_credentials_from_token\<close>, not refused.
\<close>

theorem expired_without_refresh_token_counterexample:
  "expired (demo_credentials\<lparr>refresh_token := None, expired := True\<rparr>)
   \<and> refresh_token (demo_credentials\<lparr>refresh_token := None, expired := True\<rparr>) = None
   \<and> fst (get_credentials_from_token (demo_google True True)
            ((token_data_of demo_credentials)\<lparr>td_refresh_token := None\<rparr>) demo_world_no_refresh)
       = Inr (demo_credentials\<lparr>refresh_token := None, expired := True\<rparr>)
   \<and> fst (get_credentials_from_token (demo_google True True)
            ((token_data_of demo_credentials)\<lparr>td_refresh_token := None\<rparr>) demo_world_no_refresh)
       \<noteq> Inl (ValueError credentials_expired_msg)"
  by (simp add: get_credentials_from_token_def demo_load_no_refresh)

text \<open>
  C3, amended. For every stored credential that loads as expired and carries no refresh
  token, \<open>get_credentials_from_token\<close> returns the credential as loaded, raises nothing
  and issues no remote call (the state, with its log of calls, is unchanged).
\<close>

theorem expired_without_refresh_token_returned_as_is:
  assumes "load_info g tok = Inr c" and "expired c" and "\<not> truthy (refresh_token c)"
  shows "get_credentials_from_token g tok w = (Inr c, w)"
  using assms by (simp add: get_credentials_from_token_def)

theorem expired_without_refresh_token_witness:
  "load_info (demo_google True True) ((token_data_of demo_credentials)\<lparr>td_refresh_token := None\<rparr>)
     = Inr (demo_credentials\<lparr>refresh_token := None, expired := True\<rparr>)
   \<and> expired (demo_credentials\<lparr>refresh_token := None, expired := True\<rparr>)
   \<and> \<not> truthy (refresh_token (demo_credentials\<lparr>refresh_token := None, expired := True\<rparr>))
   \<and> get_credentials_from_token (demo_google True True)
        ((token_data_of demo_credentials)\<lparr>td_refresh_token := None\<rparr>) demo_world_no_refresh
       = (Inr (demo_credentials\<lparr>refresh_token := None, expired := True\<rparr>), demo_world_no_refresh)"
proof -
  have e: "expired (demo_credentials\<lparr>refresh_token := None, expired := True\<rparr>)"
    by simp
  have n: "\<not> truthy (refresh_token (demo_credentials\<lparr>refresh_token := None, expired := True\<rparr>))"
    by simp
  from expired_without_refresh_token_returned_as_is [OF demo_load_no_refresh e n, of demo_world_no_refresh]
  show ?thesis using demo_load_no_refresh e n by simp
qed

lemma get_credentials_token_store:
  "token_store (snd (get_credentials_from_token g tok w)) = token_store w"
  by (simp add: get_credentials_from_token_def Let_def split: sum.splits)

lemma service_create_event_token_store:
  "token_store (snd (service_create_event g creds summary st et descr loc tz w)) = token_store w"
  by (simp add: service_create_event_def Let_def split: option.splits sum.splits)

lemma tool_create_event_token_store:
  "token_store (snd (tool_create_event g uid summary st dur descr tz w)) = token_store w"
proof -
  have a: "token_store w1 = token_store w"
    if "get_credentials_from_token g tok w = (r, w1)" for tok r w1
    using get_credentials_token_store [of g tok w] that by simp
  have b: "token_store w2 = token_store w1"
    if "service_create_event g creds summary st et descr [] tz w1 = (r, w2)" for creds et r w1 w2
    using service_create_event_token_store [of g creds summary st et descr "[]" tz w1] that by simp
  show ?thesis
    by (auto simp: tool_create_event_def split: option.splits sum.splits prod.splits;
        metis a b)
qed

text \<open>
  C4 as stated fails: after a successful refresh the token storage still holds the old
  access token, both after \<open>get_credentials_from_token\<close> and after the whole of
  \<open>CalendarTool.create_event\<close>.
\<close>

theorem refresh_not_persisted_counterexample:
  "fst (get_credentials_from_token (demo_google True True) (token_data_of demo_credentials) demo_world)
     = Inr (demo_credentials\<lparr>token := Some ''access-2''\<rparr>)
   \<and> get_token (snd (get_credentials_from_token (demo_google True True)
        (token_data_of demo_credentials) demo_world)) ''u1'' ''calendar''
     = Some (token_data_of demo_credentials)
   \<and> td_token (token_data_of demo_credentials) = Some ''access-1''
   \<and> get_token (snd (tool_create_event (demo_google True True) ''u1'' ''Standup'' demo_start 30 []
        ''America/New_York'' demo_world)) ''u1'' ''calendar''
     = Some (token_data_of demo_credentials)"
proof -
  have 1: "fst (get_credentials_from_token (demo_google True True) (token_data_of demo_credentials) demo_world)
     = Inr (demo_credentials\<lparr>token := Some ''access-2''\<rparr>)"
    by (simp add: get_credentials_from_token_def demo_load) (simp add: demo_google_def demo_credentials_def)
  have 2: "token_store demo_world (''u1'', ''calendar'') = Some (token_data_of demo_credentials)"
    by (simp add: demo_world_def)
  have 3: "td_token (token_data_of demo_credentials) = Some ''access-1''"
    by (simp add: token_data_of_def demo_credentials_def)
  show ?thesis
    using 1 2 3 by (simp add: get_token_def get_credentials_token_store tool_create_event_token_store)
qed

text \<open>
  C4, amended. For every stored credential that loads as expired and carries a refresh
  token, \<open>get_credentials_from_token\<close> issues exactly one refresh exchange; it returns
  the credential the exchange produced, or fails with the credentials-expired error when
  the exchange raises; the token storage is not written, neither by the load nor by
  \<open>CalendarTool.create_event\<close> around it.
\<close>

theorem expired_with_refresh_token_refreshes_without_persisting:
  assumes "load_info g tok = Inr c" and "expired c" and "truthy (refresh_token c)"
  shows "calls (snd (get_credentials_from_token g tok w)) = calls w @ [RefreshExchange c]
       \<and> fst (get_credentials_from_token g tok w)
           = (case refresh g c of Inl e \<Rightarrow> Inl (ValueError credentials_expired_msg) | Inr c' \<Rightarrow> Inr c')
       \<and> token_store (snd (get_credentials_from_token g tok w)) = token_store w
       \<and> token_store (snd (tool_create_event g uid summary st dur descr tz w)) = token_store w"
  using assms
  by (simp add: get_credentials_from_token_def Let_def tool_create_event_token_store split: sum.splits)

theorem expired_with_refresh_token_witness:
  "load_info (demo_google True True) (token_data_of demo_credentials) = Inr (demo_credentials\<lparr>expired := True\<rparr>)
   \<and> expired (demo_credentials\<lparr>expired := True\<rparr>)
   \<and> truthy (refresh_token (demo_credentials\<lparr>expired := True\<rparr>))
   \<and> calls (snd (get_credentials_from_token (demo_google True True) (token_data_of demo_credentials) demo_world))
       = [RefreshExchange (demo_credentials\<lparr>expired := True\<rparr>)]
   \<and> fst (get_credentials_from_token (demo_google True True) (token_data_of demo_credentials) demo_world)
       = Inr (demo_credentials\<lparr>token := Some ''access-2''\<rparr>)
   \<and> token_store (snd (get_credentials_from_token (demo_google True True) (token_data_of demo_credentials) demo_world))
       = token_store demo_world"
proof -
  have e: "expired (demo_credentials\<lparr>expired := True\<rparr>)"
    by simp
  have t: "truthy (refresh_token (demo_credentials\<lparr>expired := True\<rparr>))"
    by (simp add: demo_credentials_def)
  have r: "refresh (demo_google True True) (demo_credentials\<lparr>expired := True\<rparr>)
             = Inr (demo_credentials\<lparr>token := Some ''access-2''\<rparr>)"
    by (simp add: demo_google_def demo_credentials_def)
  have c: "calls demo_world = []"
    by (simp add: demo_world_def)
  from expired_with_refresh_token_refreshes_without_persisting
         [OF demo_load [of True True] e t, where w = demo_world]
  show ?thesis using demo_load [of True True] e t r c by simp
qed

section \<open>Dates and times: what the model computes\<close>







text \<open>
  On the strings the example parser accepts as naive datetimes, \<open>isoformat\<close> gives the
  string back.
\<close>

lemma digit_val_char:
  assumes "digit_val c = Some v"
  shows "0 \<le> v \<and> v \<le> 9 \<and> ''0123456789'' ! nat v = c"
  using assms by (auto simp: digit_val_def split: if_splits)

lemma zpad_step: "zpad (Suc w) (nat (v * 10 + u)) = zpad w (nat v) @ [''0123456789'' ! nat u]"
  if "0 \<le> v" "0 \<le> u" "u \<le> 9" for v u :: int
proof -
  have n: "nat (v * 10 + u) = nat v * 10 + nat u"
    using that by (simp add: nat_add_distrib nat_mult_distrib)
  have "nat u < 10"
    using that by simp
  then have "(nat v * 10 + nat u) div 10 = nat v" "(nat v * 10 + nat u) mod 10 = nat u"
    by simp_all
  then show ?thesis
    unfolding n by simp
qed

lemma parse_digits_nonneg: "parse_digits acc cs = Some v \<Longrightarrow> 0 \<le> acc \<Longrightarrow> 0 \<le> v"
proof (induction cs arbitrary: acc)
  case Nil
  then show ?case by simp
next
  case (Cons c cs)
  then obtain u where u: "digit_val c = Some u" and rest: "parse_digits (acc * 10 + u) cs = Some v"
    by (auto split: option.splits)
  from digit_val_char [OF u] Cons.prems(2) have "0 \<le> acc * 10 + u"
    by simp
  from Cons.IH [OF rest this] show ?case .
qed

lemma parse_digits_zpad:
  "parse_digits acc cs = Some v \<Longrightarrow> 0 \<le> acc \<Longrightarrow>
     zpad (w + length cs) (nat v) = zpad w (nat acc) @ cs"
proof (induction cs arbitrary: acc w)
  case Nil
  then show ?case by simp
next
  case (Cons c cs)
  then obtain u where u: "digit_val c = Some u" and rest: "parse_digits (acc * 10 + u) cs = Some v"
    by (auto split: option.splits)
  note du = digit_val_char [OF u]
  have nonneg: "0 \<le> acc * 10 + u"
    using du Cons.prems(2) by simp
  have "zpad (w + length (c # cs)) (nat v) = zpad (Suc w + length cs) (nat v)"
    by simp
  also have "\<dots> = zpad (Suc w) (nat (acc * 10 + u)) @ cs"
    by (rule Cons.IH [OF rest nonneg])
  also have "zpad (Suc w) (nat (acc * 10 + u)) = zpad w (nat acc) @ [c]"
    using zpad_step [of acc u w] du Cons.prems(2) by simp
  finally show ?case
    by simp
qed

lemma parse_digits_zpad_whole:
  assumes "parse_digits 0 cs = Some v"
  shows "zpad (length cs) (nat v) = cs"
proof -
  from parse_digits_zpad [OF assms, of 0] have "zpad (0 + length cs) (nat v) = zpad 0 (nat 0) @ cs"
    by simp
  then show ?thesis
    by simp
qed

lemma parse_two:
  assumes "parse_digits 0 cs = Some v" and "length cs = 2"
  shows "zpad2 v = cs"
proof -
  have "length cs = Suc (Suc 0)"
    using assms(2) by simp
  with parse_digits_zpad_whole [OF assms(1)] show ?thesis
    unfolding zpad2_def by (simp only:)
qed

lemma parse_four:
  assumes "parse_digits 0 cs = Some v" and "length cs = 4"
  shows "zpad4 v = cs"
proof -
  have "length cs = Suc (Suc (Suc (Suc 0)))"
    using assms(2) by simp
  with parse_digits_zpad_whole [OF assms(1)] show ?thesis
    unfolding zpad4_def by (simp only:)
qed

lemma fromisoformat_seconds_Inr:
  assumes "fromisoformat_seconds s = Inr dt"
  shows "19 \<le> length s \<and> s ! 4 = CHR ''-'' \<and> s ! 7 = CHR ''-'' \<and> s ! 10 = CHR ''T''
       \<and> s ! 13 = CHR '':'' \<and> s ! 16 = CHR '':''
       \<and> (\<exists>y m d hh mi ss tz.
            parse_digits 0 (take 4 s) = Some y \<and> parse_digits 0 (take 2 (drop 5 s)) = Some m
          \<and> parse_digits 0 (take 2 (drop 8 s)) = Some d \<and> parse_digits 0 (take 2 (drop 11 s)) = Some hh
          \<and> parse_digits 0 (take 2 (drop 14 s)) = Some mi \<and> parse_digits 0 (take 2 (drop 17 s)) = Some ss
          \<and> parse_offset (drop 19 s) = Some tz
          \<and> dt = \<lparr>year = y, month = m, day = d, hour = hh, minute = mi, second = ss,
                    microsecond = 0, dt_tzinfo = tz\<rparr>)"
proof -
  have shape: "19 \<le> length s \<and> s ! 4 = CHR ''-'' \<and> s ! 7 = CHR ''-'' \<and> s ! 10 = CHR ''T''
       \<and> s ! 13 = CHR '':'' \<and> s ! 16 = CHR '':''"
  proof (rule ccontr)
    assume "\<not> ?thesis"
    then have "fromisoformat_seconds s = Inl (invalid_isoformat s)"
      unfolding fromisoformat_seconds_def by (simp only: if_False)
    with assms show False by simp
  qed
  obtain r1 r2 r3 r4 r5 r6 r7 where r:
    "parse_digits 0 (take 4 s) = r1" "parse_digits 0 (take 2 (drop 5 s)) = r2"
    "parse_digits 0 (take 2 (drop 8 s)) = r3" "parse_digits 0 (take 2 (drop 11 s)) = r4"
    "parse_digits 0 (take 2 (drop 14 s)) = r5" "parse_digits 0 (take 2 (drop 17 s)) = r6"
    "parse_offset (drop 19 s) = r7"
    by simp
  have eq: "fromisoformat_seconds s =
     (case (r1, r2, r3, r4, r5, r6, r7) of
           (Some y, Some m, Some d, Some hh, Some mi, Some ss, Some tz) \<Rightarrow>
             if 1 \<le> y \<and> 1 \<le> m \<and> m \<le> 12 \<and> 1 \<le> d \<and> d \<le> days_in_month y m
                \<and> hh < 24 \<and> mi < 60 \<and> ss < 60 then
               Inr \<lparr>year = y, month = m, day = d, hour = hh, minute = mi, second = ss,
                    microsecond = 0, dt_tzinfo = tz\<rparr>
             else Inl (invalid_isoformat s)
         | _ \<Rightarrow> Inl (invalid_isoformat s))"
    unfolding fromisoformat_seconds_def r by (rule if_P [OF shape])
  from assms eq obtain y where "r1 = Some y" by (cases r1) simp_all
  moreover from assms eq calculation obtain m where "r2 = Some m" by (cases r2) simp_all
  moreover from assms eq calculation obtain d where "r3 = Some d" by (cases r3) simp_all
  moreover from assms eq calculation obtain hh where "r4 = Some hh" by (cases r4) simp_all
  moreover from assms eq calculation obtain mi where "r5 = Some mi" by (cases r5) simp_all
  moreover from assms eq calculation obtain ss where "r6 = Some ss" by (cases r6) simp_all
  moreover from assms eq calculation obtain tz where "r7 = Some tz" by (cases r7) simp_all
  ultimately have "r1 = Some y \<and> r2 = Some m \<and> r3 = Some d \<and> r4 = Some hh \<and> r5 = Some mi
      \<and> r6 = Some ss \<and> r7 = Some tz
      \<and> dt = \<lparr>year = y, month = m, day = d, hour = hh, minute = mi, second = ss,
               microsecond = 0, dt_tzinfo = tz\<rparr>"
    using assms eq by (simp split: if_splits)
  with shape r show ?thesis
    by blast
qed

lemma fromisoformat_seconds_roundtrip:
  assumes "fromisoformat_seconds s = Inr dt" and "dt_tzinfo dt = None"
  shows "isoformat dt = s"
proof -
  from fromisoformat_seconds_Inr [OF assms(1)] obtain y m d hh mi ss tz where
    len: "19 \<le> length s"
    and seps: "s ! 4 = CHR ''-''" "s ! 7 = CHR ''-''" "s ! 10 = CHR ''T''" "s ! 13 = CHR '':''"
      "s ! 16 = CHR '':''"
    and parts: "parse_digits 0 (take 4 s) = Some y" "parse_digits 0 (take 2 (drop 5 s)) = Some m"
      "parse_digits 0 (take 2 (drop 8 s)) = Some d" "parse_digits 0 (take 2 (drop 11 s)) = Some hh"
      "parse_digits 0 (take 2 (drop 14 s)) = Some mi" "parse_digits 0 (take 2 (drop 17 s)) = Some ss"
      "parse_offset (drop 19 s) = Some tz"
    and dt: "dt = \<lparr>year = y, month = m, day = d, hour = hh, minute = mi, second = ss,
                    microsecond = 0, dt_tzinfo = tz\<rparr>"
    by blast
  from assms(2) dt have "tz = None" by simp
  with parts(7) have "drop 19 s = []"
    by (auto simp: parse_offset_def split: if_splits option.splits)
  with len have len19: "length s = 19" by simp
  have fields: "zpad4 y = take 4 s" "zpad2 m = take 2 (drop 5 s)" "zpad2 d = take 2 (drop 8 s)"
    "zpad2 hh = take 2 (drop 11 s)" "zpad2 mi = take 2 (drop 14 s)" "zpad2 ss = take 2 (drop 17 s)"
    using parts len19 by (simp_all add: parse_two parse_four)
  have one: "drop i s = s ! i # drop (Suc i) s" if "i < 19" for i
    using that len19 by (simp add: Cons_nth_drop_Suc)
  have two: "drop i s = take 2 (drop i s) @ drop (2 + i) s" for i
    using append_take_drop_id [of 2 "drop i s"] by simp
  have "s = take 4 s @ drop 4 s"
    by simp
  also have "drop 4 s = s ! 4 # drop 5 s"
    using one [of 4] by simp
  also have "drop 5 s = take 2 (drop 5 s) @ drop 7 s"
    using two [of 5] by simp
  also have "drop 7 s = s ! 7 # drop 8 s"
    using one [of 7] by simp
  also have "drop 8 s = take 2 (drop 8 s) @ drop 10 s"
    using two [of 8] by simp
  also have "drop 10 s = s ! 10 # drop 11 s"
    using one [of 10] by simp
  also have "drop 11 s = take 2 (drop 11 s) @ drop 13 s"
    using two [of 11] by simp
  also have "drop 13 s = s ! 13 # drop 14 s"
    using one [of 13] by simp
  also have "drop 14 s = take 2 (drop 14 s) @ drop 16 s"
    using two [of 14] by simp
  also have "drop 16 s = s ! 16 # drop 17 s"
    using one [of 16] by simp
  also have "drop 17 s = take 2 (drop 17 s) @ drop 19 s"
    using two [of 17] by simp
  also have "drop 19 s = []"
    using len19 by simp
  finally have whole: "s = take 4 s @ s ! 4 # take 2 (drop 5 s) @ s ! 7 # take 2 (drop 8 s) @ s ! 10
      # take 2 (drop 11 s) @ s ! 13 # take 2 (drop 14 s) @ s ! 16 # take 2 (drop 17 s) @ []" .
  have "isoformat dt = take 4 s @ ''-'' @ take 2 (drop 5 s) @ ''-'' @ take 2 (drop 8 s) @ ''T''
      @ take 2 (drop 11 s) @ '':'' @ take 2 (drop 14 s) @ '':'' @ take 2 (drop 17 s)"
    using fields \<open>tz = None\<close> by (simp add: isoformat_def dt)
  also have "\<dots> = take 4 s @ s ! 4 # take 2 (drop 5 s) @ s ! 7 # take 2 (drop 8 s) @ s ! 10
      # take 2 (drop 11 s) @ s ! 13 # take 2 (drop 14 s) @ s ! 16 # take 2 (drop 17 s) @ []"
    unfolding seps by simp
  also have "\<dots> = s"
    using whole by (rule sym)
  finally show ?thesis .
qed

section \<open>Creating calendar events\<close>


lemma create_calendar_event_run:
  assumes "fromisoformat s = Inr dt" and "get_settings = Inr dtz"
    and "get_token w uid ''calendar'' = Some tok"
    and "get_credentials_from_token g tok w = (Inr creds, w1)"
    and "add_minutes dt (case dur of None \<Rightarrow> 60 | Some n \<Rightarrow> n) = Inr end_dt"
    and "build g creds = None"
  shows "create_calendar_event fromisoformat get_settings g uid utz summary s dur w =
     (let tz = (case dt_tzinfo dt of
                  None \<Rightarrow> (if truthy utz then the utz else dtz)
                | Some z \<Rightarrow> tz_str z);
          ev = \<lparr>p_summary = summary, p_location = [], p_description = [],
                p_start = \<lparr>dateTime = isoformat dt, timeZone = tz\<rparr>,
                p_end = \<lparr>dateTime = isoformat end_dt, timeZone = tz\<rparr>\<rparr>;
          w2 = w1\<lparr>calls := calls w1 @ [InsertEvent ev]\<rparr>
      in case events_insert g creds ev of
           Inl e \<Rightarrow> (create_failed_msg, w2)
         | Inr c \<Rightarrow> (created_msg summary (strftime_event dt), w2))"
  using assms
  by (simp add: create_calendar_event_def tool_create_event_def is_connected_def has_token_def
      get_token_def service_create_event_def Let_def tool_failure_def
      split: sum.splits option.splits)

lemma demo_start_parsed: "fromisoformat_seconds ''2025-11-20T09:00:00'' = Inr demo_start"
  by code_simp




lemma demo_load_fresh:
  "get_credentials_from_token (demo_google False True) (token_data_of demo_credentials) demo_world
     = (Inr demo_credentials, demo_world)"
  by (simp add: get_credentials_from_token_def demo_google_def token_data_of_def demo_credentials_def)




text \<open>
  With the example parser the start string itself is what the insert call carries, and
  an omitted duration schedules one hour.
\<close>

lemma canonical_start_sent_unchanged:
  assumes "fromisoformat_seconds s = Inr dt" and "dt_tzinfo dt = None"
    and "get_token w uid ''calendar'' = Some tok"
    and "get_credentials_from_token g tok w = (Inr creds, w1)"
    and "add_minutes dt (case dur of None \<Rightarrow> 60 | Some n \<Rightarrow> n) = Inr end_dt"
    and "build g creds = None"
  shows "calls (snd (create_calendar_event fromisoformat_seconds (Inr dtz) g uid utz summary s dur w))
           = calls w1 @ [InsertEvent
               \<lparr>p_summary = summary, p_location = [], p_description = [],
                p_start = \<lparr>dateTime = s, timeZone = (if truthy utz then the utz else dtz)\<rparr>,
                p_end = \<lparr>dateTime = isoformat end_dt, timeZone = (if truthy utz then the utz else dtz)\<rparr>\<rparr>]"
  using create_calendar_event_run
          [where fromisoformat = fromisoformat_seconds and s = s and utz = utz and summary = summary
             and get_settings = "Inr dtz",
           OF assms(1) refl assms(3-6)]
        assms(2) fromisoformat_seconds_roundtrip [OF assms(1,2)]
  by (simp add: Let_def split: sum.splits)

lemma demo_default_duration:
  "calls (snd (create_calendar_event fromisoformat_seconds (Inr ''America/Los_Angeles'')
       (demo_google False True) ''u1'' None ''Standup'' ''2025-11-20T09:00:00'' None demo_world))
     = [InsertEvent
         \<lparr>p_summary = ''Standup'', p_location = [], p_description = [],
          p_start = \<lparr>dateTime = ''2025-11-20T09:00:00'', timeZone = ''America/Los_Angeles''\<rparr>,
          p_end = \<lparr>dateTime = ''2025-11-20T10:00:00'', timeZone = ''America/Los_Angeles''\<rparr>\<rparr>]"
proof -
  have naive: "dt_tzinfo demo_start = None"
    by (simp add: demo_start_def)
  have dur: "add_minutes demo_start (case None of None \<Rightarrow> 60 | Some n \<Rightarrow> n)
               = Inr (demo_start\<lparr>hour := 10\<rparr>)"
    by code_simp
  have built: "build (demo_google False True) demo_credentials = None"
    by (simp add: demo_google_def)
  have iso: "isoformat (demo_start\<lparr>hour := 10\<rparr>) = ''2025-11-20T10:00:00''"
    by code_simp
  have empty: "calls demo_world = []"
    by (simp add: demo_world_def)
  from canonical_start_sent_unchanged
         [OF demo_start_parsed naive demo_token demo_load_fresh dur built,
          where dtz = "''America/Los_Angeles''" and utz = None and summary = "''Standup''"]
  show ?thesis
    using empty iso by simp
qed






text \<open>
  C10. When the start time handed to \<open>CalendarService.create_event\<close> is timezone-aware,
  the insert call carries \<open>str(start_time.tzinfo)\<close> as \<open>timeZone\<close> of both start and end,
  whatever the \<open>timezone\<close> argument is.
\<close>

theorem aware_start_overrides_timezone:
  assumes "dt_tzinfo start_time = Some z" and "build g creds = None"
  shows "calls (snd (service_create_event g creds summary start_time end_time description
                       location timezone w))
           = calls w @ [InsertEvent
               \<lparr>p_summary = summary, p_location = location, p_description = description,
                p_start = \<lparr>dateTime = isoformat start_time, timeZone = tz_str z\<rparr>,
                p_end = \<lparr>dateTime = isoformat end_time, timeZone = tz_str z\<rparr>\<rparr>]"
  using assms by (simp add: service_create_event_def Let_def split: sum.splits)

theorem aware_start_witness:
  "dt_tzinfo (demo_start\<lparr>dt_tzinfo := Some (fixed_offset 19800)\<rparr>) = Some (fixed_offset 19800)
   \<and> build (demo_google False True) demo_credentials = None
   \<and> calls (snd (service_create_event (demo_google False True) demo_credentials ''Standup''
        (demo_start\<lparr>dt_tzinfo := Some (fixed_offset 19800)\<rparr>)
        (demo_start\<lparr>minute := 30, dt_tzinfo := Some (fixed_offset 19800)\<rparr>) [] []
        ''America/New_York'' demo_world))
     = [InsertEvent
         \<lparr>p_summary = ''Standup'', p_location = [], p_description = [],
          p_start = \<lparr>dateTime = ''2025-11-20T09:00:00+05:30'', timeZone = ''UTC+05:30''\<rparr>,
          p_end = \<lparr>dateTime = ''2025-11-20T09:30:00+05:30'', timeZone = ''UTC+05:30''\<rparr>\<rparr>]"
proof -
  have aware: "dt_tzinfo (demo_start\<lparr>dt_tzinfo := Some (fixed_offset 19800)\<rparr>) = Some (fixed_offset 19800)"
    by simp
  have built: "build (demo_google False True) demo_credentials = None"
    by (simp add: demo_google_def)
  have empty: "calls demo_world = []"
    by (simp add: demo_world_def)
  have name: "tz_str (fixed_offset 19800) = ''UTC+05:30''"
    by code_simp
  have iso: "isoformat (demo_start\<lparr>dt_tzinfo := Some (fixed_offset 19800)\<rparr>) = ''2025-11-20T09:00:00+05:30''"
    "isoformat (demo_start\<lparr>minute := 30, dt_tzinfo := Some (fixed_offset 19800)\<rparr>) = ''2025-11-20T09:30:00+05:30''"
    by code_simp+
  from aware_start_overrides_timezone [OF aware built, of "''Standup''"
         "demo_start\<lparr>minute := 30, dt_tzinfo := Some (fixed_offset 19800)\<rparr>" "[]" "[]"
         "''America/New_York''" demo_world]
  show ?thesis
    using aware built empty name iso by simp
qed

text \<open>
  Through the voice agent's tool: a start string with a UTC offset is scheduled under the
  offset's name, not under the user's timezone.
\<close>

lemma aware_start_string_ignores_user_timezone:
  assumes "fromisoformat s = Inr dt" and "dt_tzinfo dt = Some z"
    and "get_settings = Inr dtz"
    and "get_token w uid ''calendar'' = Some tok"
    and "get_credentials_from_token g tok w = (Inr creds, w1)"
    and "add_minutes dt (case dur of None \<Rightarrow> 60 | Some n \<Rightarrow> n) = Inr end_dt"
    and "build g creds = None"
  shows "calls (snd (create_calendar_event fromisoformat get_settings g uid utz summary s dur w))
           = calls w1 @ [InsertEvent
               \<lparr>p_summary = summary, p_location = [], p_description = [],
                p_start = \<lparr>dateTime = isoformat dt, timeZone = tz_str z\<rparr>,
                p_end = \<lparr>dateTime = isoformat end_dt, timeZone = tz_str z\<rparr>\<rparr>]"
  using create_calendar_event_run
          [where fromisoformat = fromisoformat and s = s and utz = utz and summary = summary,
           OF assms(1) assms(3-7)]
        assms(2)
  by (simp add: Let_def split: sum.splits)

section \<open>The greeting\<close>








section \<open>The per-turn memory hook\<close>












end
